theory Spec2Isabelle
  imports Main
begin

section \<open>Grocery management backend: catalog, ledger and the purchase endpoint\<close>

text \<open>
  A shallow embedding of \<^verbatim>\<open>src/main.py\<close>. The two tables are lists of rows in
  insertion order. A request handler is a function from the request payload, the
  readings that its calls of \<^verbatim>\<open>datetime.utcnow()\<close> return, and the database before
  the request, to the response (an \<^verbatim>\<open>HTTPException\<close> or the response body) paired
  with the database after the request.
\<close>

subsection \<open>Values\<close>

text \<open>
  A Python \<^verbatim>\<open>str\<close> is a sequence of Unicode code points. A \<^verbatim>\<open>datetime\<close> is an
  instant, counted in microseconds. A \<^verbatim>\<open>condecimal(decimal_places=2)\<close> is counted
  in hundredths. Python integers are unbounded.
\<close>

type_synonym str = "nat list"
type_synonym datetime = int
type_synonym decimal = int

definition py_str :: "string \<Rightarrow> str" where
  "py_str = map of_char"

text \<open>
  \<^verbatim>\<open>str.isspace\<close> for one code point, and \<^verbatim>\<open>str.strip()\<close> with no argument,
  which removes the longest whitespace prefix and the longest whitespace suffix.
\<close>

definition py_isspace :: "nat \<Rightarrow> bool" where
  "py_isspace c \<longleftrightarrow>
     (0x09 \<le> c \<and> c \<le> 0x0D) \<or> (0x1C \<le> c \<and> c \<le> 0x20) \<or> c = 0x85 \<or> c = 0xA0 \<or>
     c = 0x1680 \<or> (0x2000 \<le> c \<and> c \<le> 0x200A) \<or> c = 0x2028 \<or> c = 0x2029 \<or>
     c = 0x202F \<or> c = 0x205F \<or> c = 0x3000"

definition py_strip :: "str \<Rightarrow> str" where
  "py_strip s = rev (dropWhile py_isspace (rev (dropWhile py_isspace s)))"

subsection \<open>Tables\<close>

record ProductORM =
  id' :: nat
  name :: str
  category :: "str option"
  price :: decimal
  stock :: int
  description :: "str option"
  created_at :: datetime
  updated_at :: datetime

record TransactionORM =
  tx_id :: nat
  tx_product_id :: nat
  tx_type :: str
  tx_quantity :: int
  tx_unit_price :: decimal
  tx_note :: "str option"
  tx_created_at :: datetime

record database =
  products :: "ProductORM list"
  transactions :: "TransactionORM list"

text \<open>
  The integer primary key of a new row is one more than the largest key in the table
  (SQLite's rowid allocation), so it is fresh.
\<close>

definition next_id :: "nat list \<Rightarrow> nat" where
  "next_id ks = Suc (fold max ks 0)"

text \<open>\<^verbatim>\<open>db.query(ProductORM).filter(ProductORM.id == product_id).first()\<close>\<close>

definition query_product :: "nat \<Rightarrow> database \<Rightarrow> ProductORM option" where
  "query_product pid db = find (\<lambda>p. id' p = pid) (products db)"

subsection \<open>Schemas\<close>

record ProductCreate =
  pc_name :: str
  pc_category :: "str option"
  pc_price :: decimal
  pc_stock :: int
  pc_description :: "str option"

record ProductUpdate =
  pu_name :: "str option"
  pu_category :: "str option"
  pu_price :: "decimal option"
  pu_stock :: "int option"
  pu_description :: "str option"

record TransactionCreate =
  product_id :: nat
  type' :: str
  quantity :: int
  unit_price :: decimal
  note' :: "str option"

record TransactionOut =
  out_id :: nat
  out_product_id :: nat
  out_type :: str
  out_quantity :: int
  out_unit_price :: decimal
  out_note :: "str option"
  out_created_at :: datetime
  out_product_name :: "str option"

text \<open>
  The request body is validated before the handler runs: \<^verbatim>\<open>quantity: PositiveInt\<close>
  rejects every quantity below 1.
\<close>

definition valid_TransactionCreate :: "TransactionCreate \<Rightarrow> bool" where
  "valid_TransactionCreate payload \<longleftrightarrow> 0 < quantity payload"

subsection \<open>Errors\<close>

datatype HTTPException = HTTPException (status_code: nat) (detail: string)

text \<open>The error taxonomy of the specification, as the responses the handlers raise.\<close>

definition InvalidKind :: HTTPException where
  "InvalidKind = HTTPException 400 ''Invalid type. Use 'purchase' or 'sale'.''"

definition ProductNotFound :: HTTPException where
  "ProductNotFound = HTTPException 404 ''Product not found''"

definition InsufficientStock :: HTTPException where
  "InsufficientStock = HTTPException 400 ''Insufficient stock for sale''"

definition DuplicateName :: HTTPException where
  "DuplicateName = HTTPException 400 ''Product with this name already exists''"

subsection \<open>The purchase endpoint\<close>

text \<open>
  \<^verbatim>\<open>db.commit()\<close> in \<^verbatim>\<open>purchase\<close> writes the two pending changes together: the
  modified attributes of the product, as an update of the rows with its key, and the
  new transaction row, which receives its key.
\<close>

definition commit_purchase :: "ProductORM \<Rightarrow> TransactionORM \<Rightarrow> database \<Rightarrow> database" where
  "commit_purchase product tx db =
     \<lparr> products = map (\<lambda>p. if id' p = id' product
                             then p\<lparr> stock := stock product, updated_at := updated_at product \<rparr>
                             else p) (products db),
       transactions = transactions db @ [tx] \<rparr>"

text \<open>
  \<^verbatim>\<open>purchase(payload, db)\<close>. The arguments \<open>now1\<close> and \<open>now2\<close> are the readings of
  the two calls of \<^verbatim>\<open>datetime.utcnow()\<close>, in the order in which the handler makes
  them.
\<close>

definition purchase ::
  "TransactionCreate \<Rightarrow> datetime \<Rightarrow> datetime \<Rightarrow> database \<Rightarrow> (HTTPException + TransactionOut) \<times> database" where
  "purchase payload now1 now2 db =
     (if type' payload \<noteq> py_str ''purchase'' \<and> type' payload \<noteq> py_str ''sale''
      then (Inl (HTTPException 400 ''Invalid type. Use 'purchase' or 'sale'.''), db)
      else case query_product (product_id payload) db of
        None \<Rightarrow> (Inl (HTTPException 404 ''Product not found''), db)
      | Some product \<Rightarrow>
          let qty = quantity payload in
          if type' payload = py_str ''sale'' \<and> stock product < qty
          then (Inl (HTTPException 400 ''Insufficient stock for sale''), db)
          else
            let product' = product\<lparr> stock := (if type' payload = py_str ''purchase''
                                                then stock product + qty
                                                else stock product - qty),
                                     updated_at := now1 \<rparr>;
                tx = \<lparr> tx_id = next_id (map tx_id (transactions db)),
                       tx_product_id = id' product',
                       tx_type = type' payload,
                       tx_quantity = qty,
                       tx_unit_price = unit_price payload,
                       tx_note = note' payload,
                       tx_created_at = now2 \<rparr>
            in (Inr \<lparr> out_id = tx_id tx,
                      out_product_id = tx_product_id tx,
                      out_type = tx_type tx,
                      out_quantity = tx_quantity tx,
                      out_unit_price = tx_unit_price tx,
                      out_note = tx_note tx,
                      out_created_at = tx_created_at tx,
                      out_product_name = Some (name product') \<rparr>,
                commit_purchase product' tx db))"

text \<open>
  A sequence of calls of \<^verbatim>\<open>purchase\<close>, each with its clock readings, all of which
  succeed: the database after the last call, or \<open>None\<close> when some call raises.
\<close>

fun successful_purchases ::
  "(TransactionCreate \<times> datetime \<times> datetime) list \<Rightarrow> database \<Rightarrow> database option" where
  "successful_purchases [] db = Some db"
| "successful_purchases ((payload, now1, now2) # calls) db =
     (case purchase payload now1 now2 db of
        (Inl e, db') \<Rightarrow> None
      | (Inr out, db') \<Rightarrow> successful_purchases calls db')"

subsection \<open>The catalog endpoints\<close>

text \<open>
  \<^verbatim>\<open>create_product(payload, db)\<close>. The two readings of the clock are \<open>now1\<close> for
  \<^verbatim>\<open>created_at\<close> and \<open>now2\<close> for \<^verbatim>\<open>updated_at\<close>. The commit raises
  \<^verbatim>\<open>IntegrityError\<close> when a row with the same \<^verbatim>\<open>name\<close> exists (the column is
  \<^verbatim>\<open>unique=True\<close>, compared code point by code point); the handler then rolls
  back and raises the 400 response.
\<close>

definition create_product ::
  "ProductCreate \<Rightarrow> datetime \<Rightarrow> datetime \<Rightarrow> database \<Rightarrow> (HTTPException + ProductORM) \<times> database" where
  "create_product payload now1 now2 db =
     (let product = \<lparr> id' = next_id (map id' (products db)),
                       name = py_strip (pc_name payload),
                       category = (case pc_category payload of
                                     None \<Rightarrow> None
                                   | Some c \<Rightarrow> if c = [] then None else Some c),
                       price = pc_price payload,
                       stock = pc_stock payload,
                       description = pc_description payload,
                       created_at = now1,
                       updated_at = now2 \<rparr>
      in if \<exists>p \<in> set (products db). name p = name product
         then (Inl (HTTPException 400 ''Product with this name already exists''), db)
         else (Inr product, db\<lparr> products := products db @ [product] \<rparr>))"

text \<open>
  \<^verbatim>\<open>update_product(product_id, payload, db)\<close>, with the path parameter as \<open>pid\<close>
  and the one reading of the clock as \<open>now\<close>. The commit raises
  \<^verbatim>\<open>IntegrityError\<close> when another row has the new name.
\<close>

definition update_product ::
  "nat \<Rightarrow> ProductUpdate \<Rightarrow> datetime \<Rightarrow> database \<Rightarrow> (HTTPException + ProductORM) \<times> database" where
  "update_product pid payload now db =
     (case query_product pid db of
        None \<Rightarrow> (Inl (HTTPException 404 ''Product not found''), db)
      | Some product \<Rightarrow>
          let product1 = (case pu_name payload of
                            None \<Rightarrow> product | Some n \<Rightarrow> product\<lparr> name := py_strip n \<rparr>);
              product2 = (case pu_category payload of
                            None \<Rightarrow> product1 | Some c \<Rightarrow> product1\<lparr> category := Some c \<rparr>);
              product3 = (case pu_price payload of
                            None \<Rightarrow> product2 | Some v \<Rightarrow> product2\<lparr> price := v \<rparr>);
              product4 = (case pu_stock payload of
                            None \<Rightarrow> product3 | Some v \<Rightarrow> product3\<lparr> stock := v \<rparr>);
              product5 = (case pu_description payload of
                            None \<Rightarrow> product4 | Some d \<Rightarrow> product4\<lparr> description := Some d \<rparr>);
              product' = product5\<lparr> updated_at := now \<rparr>
          in if \<exists>p \<in> set (products db). id' p \<noteq> id' product' \<and> name p = name product'
             then (Inl (HTTPException 400 ''Product with this name already exists''), db)
             else (Inr product',
                   db\<lparr> products := map (\<lambda>p. if id' p = id' product' then product' else p)
                                          (products db) \<rparr>))"

subsection \<open>Example data\<close>

definition milk :: ProductORM where
  "milk = \<lparr> id' = 1, name = py_str ''Milk'', category = Some (py_str ''Dairy''), price = 199,
            stock = 5, description = None, created_at = 1000, updated_at = 1000 \<rparr>"

definition bread :: ProductORM where
  "bread = \<lparr> id' = 2, name = py_str ''Bread'', category = None, price = 250,
             stock = 0, description = None, created_at = 2000, updated_at = 2000 \<rparr>"

definition shop :: database where
  "shop = \<lparr> products = [milk, bread], transactions = [] \<rparr>"

definition order :: "nat \<Rightarrow> string \<Rightarrow> int \<Rightarrow> TransactionCreate" where
  "order pid kind q =
     \<lparr> product_id = pid, type' = py_str kind, quantity = q, unit_price = 100, note' = None \<rparr>"

definition new_product :: "string \<Rightarrow> ProductCreate" where
  "new_product n =
     \<lparr> pc_name = py_str n, pc_category = None, pc_price = 120, pc_stock = 3,
       pc_description = None \<rparr>"

text \<open>The shop after ten units of milk are bought, and after they are sold again.\<close>

definition restock_receipt :: TransactionOut where
  "restock_receipt =
     \<lparr> out_id = 1, out_product_id = 1, out_type = py_str ''purchase'', out_quantity = 10,
       out_unit_price = 100, out_note = None, out_created_at = 5001,
       out_product_name = Some (py_str ''Milk'') \<rparr>"

definition shop_restocked :: database where
  "shop_restocked =
     \<lparr> products = [milk\<lparr> stock := 15, updated_at := 5000 \<rparr>, bread],
       transactions =
         [\<lparr> tx_id = 1, tx_product_id = 1, tx_type = py_str ''purchase'', tx_quantity = 10,
            tx_unit_price = 100, tx_note = None, tx_created_at = 5001 \<rparr>] \<rparr>"

definition sale_receipt :: TransactionOut where
  "sale_receipt =
     \<lparr> out_id = 2, out_product_id = 1, out_type = py_str ''sale'', out_quantity = 10,
       out_unit_price = 100, out_note = None, out_created_at = 6001,
       out_product_name = Some (py_str ''Milk'') \<rparr>"

definition shop_sold :: database where
  "shop_sold =
     \<lparr> products = [milk\<lparr> stock := 5, updated_at := 6000 \<rparr>, bread],
       transactions =
         [\<lparr> tx_id = 1, tx_product_id = 1, tx_type = py_str ''purchase'', tx_quantity = 10,
            tx_unit_price = 100, tx_note = None, tx_created_at = 5001 \<rparr>,
          \<lparr> tx_id = 2, tx_product_id = 1, tx_type = py_str ''sale'', tx_quantity = 10,
            tx_unit_price = 100, tx_note = None, tx_created_at = 6001 \<rparr>] \<rparr>"

text \<open>The shop after a product named \<open>Eggs\<close> is created, and after the bread is renamed.\<close>

definition eggs :: ProductORM where
  "eggs = \<lparr> id' = 3, name = py_str ''Eggs'', category = None, price = 120,
            stock = 3, description = None, created_at = 7000, updated_at = 7001 \<rparr>"

definition shop_with_eggs :: database where
  "shop_with_eggs = \<lparr> products = [milk, bread, eggs], transactions = [] \<rparr>"

definition rename :: "string \<Rightarrow> ProductUpdate" where
  "rename n =
     \<lparr> pu_name = Some (py_str n), pu_category = None, pu_price = None, pu_stock = None,
       pu_description = None \<rparr>"

definition rye :: ProductORM where
  "rye = bread\<lparr> name := py_str ''Rye'', updated_at := 8000 \<rparr>"

definition shop_renamed :: database where
  "shop_renamed = \<lparr> products = [milk, rye], transactions = [] \<rparr>"

section \<open>Properties of the purchase endpoint\<close>

subsection \<open>Auxiliary facts\<close>

lemmas example_defs =
  milk_def bread_def shop_def order_def new_product_def restock_receipt_def
  shop_restocked_def sale_receipt_def shop_sold_def eggs_def shop_with_eggs_def
  rename_def rye_def shop_renamed_def py_str_def

lemmas error_defs =
  InvalidKind_def ProductNotFound_def InsufficientStock_def DuplicateName_def

lemma py_str_purchase_sale: "py_str ''purchase'' \<noteq> py_str ''sale''"
  by (simp add: py_str_def)

lemma find_update_rows:
  "find (\<lambda>p. id' p = k)
        (map (\<lambda>p. if id' p = j then p\<lparr> stock := s, updated_at := u \<rparr> else p) rows) =
     (if k = j
      then map_option (\<lambda>p. p\<lparr> stock := s, updated_at := u \<rparr>) (find (\<lambda>p. id' p = k) rows)
      else find (\<lambda>p. id' p = k) rows)"
  by (induction rows) auto

lemma query_product_commit:
  "query_product k (commit_purchase product tx db) =
     (if k = id' product
      then map_option (\<lambda>p. p\<lparr> stock := stock product, updated_at := updated_at product \<rparr>)
             (query_product k db)
      else query_product k db)"
  by (simp add: query_product_def commit_purchase_def find_update_rows)

lemma query_product_id: "query_product k db = Some product \<Longrightarrow> id' product = k"
  by (auto simp: query_product_def find_Some_iff)

lemma query_product_mem: "query_product k db = Some product \<Longrightarrow> product \<in> set (products db)"
  by (auto simp: query_product_def find_Some_iff)

text \<open>The three ways in which the handler raises, each before any write.\<close>

lemma purchase_failure:
  assumes "purchase payload now1 now2 db = (Inl e, db')"
  shows "db' = db" and "e \<in> {InvalidKind, ProductNotFound, InsufficientStock}"
  using assms unfolding purchase_def error_defs
  by (auto simp: Let_def split: if_splits option.splits)

text \<open>The one way in which it returns.\<close>

lemma purchase_success:
  assumes "purchase payload now1 now2 db = (Inr out, db')"
  obtains product where
    "query_product (product_id payload) db = Some product"
    "type' payload = py_str ''purchase'' \<or> type' payload = py_str ''sale''"
    "type' payload = py_str ''sale'' \<longrightarrow> quantity payload \<le> stock product"
    "db' = commit_purchase
             (product\<lparr> stock := (if type' payload = py_str ''purchase''
                                  then stock product + quantity payload
                                  else stock product - quantity payload),
                       updated_at := now1 \<rparr>)
             \<lparr> tx_id = next_id (map tx_id (transactions db)),
               tx_product_id = id' product,
               tx_type = type' payload,
               tx_quantity = quantity payload,
               tx_unit_price = unit_price payload,
               tx_note = note' payload,
               tx_created_at = now2 \<rparr> db"
    "out_created_at out = now2"
  using assms unfolding purchase_def
  by (auto simp: Let_def split: if_splits option.splits)

lemma commit_purchase_rows:
  "p' \<in> set (products (commit_purchase product tx db)) \<Longrightarrow>
     \<exists>p \<in> set (products db).
       p' = (if id' p = id' product
             then p\<lparr> stock := stock product, updated_at := updated_at product \<rparr> else p)"
  by (auto simp: commit_purchase_def)

text \<open>One successful call keeps the stock of the rows with a given key non-negative.\<close>

lemma purchase_stock_nonneg:
  assumes ok: "purchase payload now1 now2 db = (Inr out, db')"
    and q: "0 < quantity payload"
    and inv: "\<forall>p \<in> set (products db). id' p = k \<longrightarrow> 0 \<le> stock p"
  shows "\<forall>p \<in> set (products db'). id' p = k \<longrightarrow> 0 \<le> stock p"
proof (intro ballI impI)
  fix p' assume mem: "p' \<in> set (products db')" and key: "id' p' = k"
  from ok obtain product where
    f: "query_product (product_id payload) db = Some product" and
    t: "type' payload = py_str ''purchase'' \<or> type' payload = py_str ''sale''" and
    s: "type' payload = py_str ''sale'' \<longrightarrow> quantity payload \<le> stock product" and
    d: "db' = commit_purchase
             (product\<lparr> stock := (if type' payload = py_str ''purchase''
                                  then stock product + quantity payload
                                  else stock product - quantity payload),
                       updated_at := now1 \<rparr>)
             \<lparr> tx_id = next_id (map tx_id (transactions db)),
               tx_product_id = id' product,
               tx_type = type' payload,
               tx_quantity = quantity payload,
               tx_unit_price = unit_price payload,
               tx_note = note' payload,
               tx_created_at = now2 \<rparr> db" and
    o: "out_created_at out = now2"
    by (rule purchase_success)
  from mem obtain p where pm: "p \<in> set (products db)" and
    pe: "p' = (if id' p = id' product
               then p\<lparr> stock := (if type' payload = py_str ''purchase''
                                  then stock product + quantity payload
                                  else stock product - quantity payload),
                        updated_at := now1 \<rparr> else p)"
    unfolding d by (auto dest: commit_purchase_rows)
  show "0 \<le> stock p'"
  proof (cases "id' p = id' product")
    case False
    with pe have "p' = p" by simp
    with pm key inv show ?thesis by simp
  next
    case True
    with pe key have "id' product = k" by simp
    with inv query_product_mem [OF f] have "0 \<le> stock product" by simp
    with True pe q s t show ?thesis by auto
  qed
qed

text \<open>The example calls, evaluated.\<close>

lemma restock_run:
  "purchase (order 1 ''purchase'' 10) 5000 5001 shop = (Inr restock_receipt, shop_restocked)"
  by (simp add: purchase_def query_product_def commit_purchase_def next_id_def example_defs)

lemma sale_run:
  "purchase (order 1 ''sale'' 10) 6000 6001 shop_restocked = (Inr sale_receipt, shop_sold)"
  by (simp add: purchase_def query_product_def commit_purchase_def next_id_def example_defs)

lemma oversell_run:
  "purchase (order 1 ''sale'' 10) 5000 5001 shop = (Inl InsufficientStock, shop)"
  by (simp add: purchase_def query_product_def error_defs example_defs)

lemma refund_run:
  "purchase (order 7 ''refund'' 10) 5000 5001 shop = (Inl InvalidKind, shop)"
  by (simp add: purchase_def error_defs example_defs)

lemma missing_run:
  "purchase (order 7 ''sale'' 10) 5000 5001 shop = (Inl ProductNotFound, shop)"
  by (simp add: purchase_def query_product_def error_defs example_defs)

subsection \<open>Failure leaves the database as it was\<close>

text \<open>
  Claim C1. Whenever the purchase endpoint raises, for whichever of its reasons (invalid
  kind, missing product, insufficient stock), the database after the call is the database
  before it: every product's stock and the number of ledger records are unchanged.
\<close>

theorem purchase_failure_atomic:
  assumes "fst (purchase payload now1 now2 db) = Inl e"
  shows "snd (purchase payload now1 now2 db) = db \<and>
         map stock (products (snd (purchase payload now1 now2 db))) = map stock (products db) \<and>
         length (transactions (snd (purchase payload now1 now2 db))) = length (transactions db) \<and>
         e \<in> {InvalidKind, ProductNotFound, InsufficientStock}"
proof -
  obtain db' where r: "purchase payload now1 now2 db = (Inl e, db')"
    using assms by (cases "purchase payload now1 now2 db") simp
  from purchase_failure [OF r] have "db' = db" and
    "e \<in> {InvalidKind, ProductNotFound, InsufficientStock}" by simp_all
  with r show ?thesis by simp
qed

theorem purchase_failure_atomic_witness:
  "fst (purchase (order 1 ''sale'' 10) 5000 5001 shop) = Inl InsufficientStock \<and>
   snd (purchase (order 1 ''sale'' 10) 5000 5001 shop) = shop \<and>
   length (transactions (snd (purchase (order 1 ''sale'' 10) 5000 5001 shop))) =
     length (transactions shop)"
proof -
  have h: "fst (purchase (order 1 ''sale'' 10) 5000 5001 shop) = Inl InsufficientStock"
    unfolding oversell_run by simp
  from purchase_failure_atomic [OF h] h show ?thesis by simp
qed

subsection \<open>The insufficient-stock guard\<close>

text \<open>
  Claim C2. A sale on an existing product whose quantity exceeds the product's current
  stock raises the insufficient-stock error, and the database, hence the product's stock
  and the ledger, is exactly as before the call.
\<close>

theorem sale_insufficient_stock:
  assumes "type' payload = py_str ''sale''"
    and "query_product (product_id payload) db = Some product"
    and "stock product < quantity payload"
  shows "purchase payload now1 now2 db = (Inl InsufficientStock, db)"
  using assms py_str_purchase_sale unfolding purchase_def InsufficientStock_def
  by simp

theorem sale_insufficient_stock_witness:
  "type' (order 1 ''sale'' 10) = py_str ''sale'' \<and>
   query_product (product_id (order 1 ''sale'' 10)) shop = Some milk \<and>
   stock milk < quantity (order 1 ''sale'' 10) \<and>
   purchase (order 1 ''sale'' 10) 5000 5001 shop = (Inl InsufficientStock, shop)"
proof -
  have a: "type' (order 1 ''sale'' 10) = py_str ''sale''"
    by (simp add: order_def)
  have b: "query_product (product_id (order 1 ''sale'' 10)) shop = Some milk"
    by (simp add: query_product_def example_defs)
  have c: "stock milk < quantity (order 1 ''sale'' 10)"
    by (simp add: example_defs)
  from sale_insufficient_stock [OF a b c] a b c show ?thesis by simp
qed

subsection \<open>Stock never becomes negative\<close>

text \<open>
  Claim C3. If the stock of a product (the rows with key \<open>k\<close>) is non-negative, then
  after any finite sequence of successful calls of the purchase endpoint, purchases and
  sales of positive quantities on any products, its stock is still non-negative.
\<close>

theorem stock_never_negative:
  assumes "\<forall>p \<in> set (products db). id' p = k \<longrightarrow> 0 \<le> stock p"
    and "\<forall>c \<in> set calls. valid_TransactionCreate (fst c)"
    and "successful_purchases calls db = Some db'"
  shows "\<forall>p \<in> set (products db'). id' p = k \<longrightarrow> 0 \<le> stock p"
  using assms
proof (induction calls arbitrary: db)
  case Nil
  then show ?case by simp
next
  case (Cons c calls)
  obtain payload now1 now2 where c: "c = (payload, now1, now2)"
    by (cases c) auto
  from Cons.prems(3) obtain out db1 where
    r: "purchase payload now1 now2 db = (Inr out, db1)" and
    rest: "successful_purchases calls db1 = Some db'"
    unfolding c by (auto split: prod.splits sum.splits)
  from Cons.prems(2) have q: "0 < quantity payload"
    unfolding c by (simp add: valid_TransactionCreate_def)
  have "\<forall>p \<in> set (products db1). id' p = k \<longrightarrow> 0 \<le> stock p"
    using r q Cons.prems(1) by (rule purchase_stock_nonneg)
  moreover from Cons.prems(2) have "\<forall>c \<in> set calls. valid_TransactionCreate (fst c)"
    by simp
  ultimately show ?case
    using rest by (rule Cons.IH)
qed

theorem stock_never_negative_witness:
  "stock milk = 5 \<and>
   valid_TransactionCreate (order 1 ''purchase'' 10) \<and>
   valid_TransactionCreate (order 1 ''sale'' 10) \<and>
   successful_purchases
     [(order 1 ''purchase'' 10, 5000, 5001), (order 1 ''sale'' 10, 6000, 6001)] shop =
     Some shop_sold \<and>
   id' (hd (products shop_sold)) = 1 \<and>
   0 \<le> stock (hd (products shop_sold))"
proof -
  have a: "\<forall>p \<in> set (products shop). id' p = 1 \<longrightarrow> 0 \<le> stock p"
    by (simp add: example_defs)
  have b: "\<forall>c \<in> set [(order 1 ''purchase'' 10, 5000 :: datetime, 5001 :: datetime),
                       (order 1 ''sale'' 10, 6000, 6001)].
      valid_TransactionCreate (fst c)"
    by (simp add: valid_TransactionCreate_def order_def)
  have c: "successful_purchases
     [(order 1 ''purchase'' 10, 5000, 5001), (order 1 ''sale'' 10, 6000, 6001)] shop =
     Some shop_sold"
    by (simp only: successful_purchases.simps restock_run sale_run prod.case sum.case)
  have d: "hd (products shop_sold) \<in> set (products shop_sold)"
    and e: "id' (hd (products shop_sold)) = 1"
    by (simp_all add: example_defs)
  from stock_never_negative [OF a b c] d e
  have "0 \<le> stock (hd (products shop_sold))"
    by blast
  moreover have "stock milk = 5"
    by (simp add: milk_def)
  ultimately show ?thesis
    using b c e by simp
qed

subsection \<open>The effect of a successful call\<close>

text \<open>
  Claim C4. A successful call found its product; a purchase leaves the product's stock
  larger by exactly the quantity and a sale leaves it smaller by exactly the quantity;
  the ledger after the call is the ledger before it followed by one new record, which
  carries the call's product, kind, quantity, unit price and note.
\<close>

theorem purchase_success_effect:
  assumes "purchase payload now1 now2 db = (Inr out, db')"
  shows "\<exists>product tx.
           query_product (product_id payload) db = Some product \<and>
           (type' payload = py_str ''purchase'' \<or> type' payload = py_str ''sale'') \<and>
           (type' payload = py_str ''purchase'' \<longrightarrow>
              map_option stock (query_product (product_id payload) db') =
                Some (stock product + quantity payload)) \<and>
           (type' payload = py_str ''sale'' \<longrightarrow>
              map_option stock (query_product (product_id payload) db') =
                Some (stock product - quantity payload)) \<and>
           transactions db' = transactions db @ [tx] \<and>
           tx_product_id tx = product_id payload \<and>
           tx_type tx = type' payload \<and>
           tx_quantity tx = quantity payload \<and>
           tx_unit_price tx = unit_price payload \<and>
           tx_note tx = note' payload"
proof -
  from assms obtain product where
    q: "query_product (product_id payload) db = Some product" and
    k: "type' payload = py_str ''purchase'' \<or> type' payload = py_str ''sale''" and
    d: "db' = commit_purchase
             (product\<lparr> stock := (if type' payload = py_str ''purchase''
                                  then stock product + quantity payload
                                  else stock product - quantity payload),
                       updated_at := now1 \<rparr>)
             \<lparr> tx_id = next_id (map tx_id (transactions db)),
               tx_product_id = id' product,
               tx_type = type' payload,
               tx_quantity = quantity payload,
               tx_unit_price = unit_price payload,
               tx_note = note' payload,
               tx_created_at = now2 \<rparr> db"
    by (rule purchase_success)
  have i: "id' product = product_id payload"
    using q by (rule query_product_id)
  have s: "map_option stock (query_product (product_id payload) db') =
             Some (if type' payload = py_str ''purchase''
                   then stock product + quantity payload
                   else stock product - quantity payload)"
    unfolding d by (simp add: query_product_commit i q)
  have t: "transactions db' = transactions db @
             [\<lparr> tx_id = next_id (map tx_id (transactions db)),
               tx_product_id = id' product,
               tx_type = type' payload,
               tx_quantity = quantity payload,
               tx_unit_price = unit_price payload,
               tx_note = note' payload,
               tx_created_at = now2 \<rparr>]"
    unfolding d by (simp add: commit_purchase_def)
  show ?thesis
    using q k s t i py_str_purchase_sale by auto
qed

theorem purchase_success_effect_witness:
  "purchase (order 1 ''purchase'' 10) 5000 5001 shop = (Inr restock_receipt, shop_restocked) \<and>
   purchase (order 1 ''sale'' 10) 6000 6001 shop_restocked = (Inr sale_receipt, shop_sold) \<and>
   map_option stock (query_product 1 shop) = Some 5 \<and>
   map_option stock (query_product 1 shop_restocked) = Some 15 \<and>
   map_option stock (query_product 1 shop_sold) = Some 5 \<and>
   length (transactions shop) = 0 \<and>
   length (transactions shop_restocked) = 1 \<and>
   length (transactions shop_sold) = 2"
proof -
  from purchase_success_effect [OF restock_run] have
    "map_option stock (query_product 1 shop_restocked) =
       Some (stock (the (query_product 1 shop)) + 10) \<and>
     length (transactions shop_restocked) = length (transactions shop) + 1"
    by (auto simp: order_def py_str_def)
  moreover from purchase_success_effect [OF sale_run] have
    "map_option stock (query_product 1 shop_sold) =
       Some (stock (the (query_product 1 shop_restocked)) - 10) \<and>
     length (transactions shop_sold) = length (transactions shop_restocked) + 1"
    by (auto simp: order_def py_str_def)
  moreover have "query_product 1 shop = Some milk"
    by (simp add: query_product_def example_defs)
  moreover have "stock milk = 5" "transactions shop = []"
    by (simp_all add: example_defs)
  ultimately show ?thesis
    using restock_run sale_run by auto
qed

subsection \<open>Purchase and sale are inverse on the stock\<close>

text \<open>
  Claim C5. When a purchase of a quantity and then a sale of the same quantity of the same
  product both succeed, the product's stock after the two calls equals its stock before
  them, and the ledger holds exactly two more records.
\<close>

theorem purchase_sale_symmetry:
  assumes "type' p1 = py_str ''purchase''" and "type' p2 = py_str ''sale''"
    and "product_id p2 = product_id p1" and "quantity p2 = quantity p1"
    and "purchase p1 a1 a2 db = (Inr out1, db1)"
    and "purchase p2 b1 b2 db1 = (Inr out2, db2)"
  shows "\<exists>product.
           query_product (product_id p1) db = Some product \<and>
           map_option stock (query_product (product_id p1) db2) = Some (stock product) \<and>
           length (transactions db2) = length (transactions db) + 2"
proof -
  from purchase_success [OF assms(5)] obtain product where
    q: "query_product (product_id p1) db = Some product" and
    d: "db1 = commit_purchase
             (product\<lparr> stock := (if type' p1 = py_str ''purchase''
                                  then stock product + quantity p1
                                  else stock product - quantity p1),
                       updated_at := a1 \<rparr>)
             \<lparr> tx_id = next_id (map tx_id (transactions db)),
               tx_product_id = id' product,
               tx_type = type' p1,
               tx_quantity = quantity p1,
               tx_unit_price = unit_price p1,
               tx_note = note' p1,
               tx_created_at = a2 \<rparr> db"
    by blast
  have i: "id' product = product_id p1"
    using q by (rule query_product_id)
  have s1: "map_option stock (query_product (product_id p1) db1) =
              Some (stock product + quantity p1)"
    unfolding d by (simp add: query_product_commit i q assms(1))
  have t1: "length (transactions db1) = length (transactions db) + 1"
    unfolding d by (simp add: commit_purchase_def)
  from purchase_success [OF assms(6)] obtain product1 where
    q1: "query_product (product_id p2) db1 = Some product1" and
    d1: "db2 = commit_purchase
             (product1\<lparr> stock := (if type' p2 = py_str ''purchase''
                                  then stock product1 + quantity p2
                                  else stock product1 - quantity p2),
                       updated_at := b1 \<rparr>)
             \<lparr> tx_id = next_id (map tx_id (transactions db1)),
               tx_product_id = id' product1,
               tx_type = type' p2,
               tx_quantity = quantity p2,
               tx_unit_price = unit_price p2,
               tx_note = note' p2,
               tx_created_at = b2 \<rparr> db1"
    by blast
  have i1: "id' product1 = product_id p1"
    using q1 assms(3) by (simp add: query_product_id)
  from s1 q1 assms(3) have st: "stock product1 = stock product + quantity p1"
    by simp
  have n: "type' p2 \<noteq> py_str ''purchase''"
    using assms(2) py_str_purchase_sale by simp
  have s2: "map_option stock (query_product (product_id p1) db2) = Some (stock product)"
    unfolding d1 using q1 assms(3,4) by (simp add: query_product_commit i1 n st)
  have t2: "length (transactions db2) = length (transactions db1) + 1"
    unfolding d1 by (simp add: commit_purchase_def)
  from q s2 t1 t2 show ?thesis by simp
qed

theorem purchase_sale_symmetry_witness:
  "type' (order 1 ''purchase'' 10) = py_str ''purchase'' \<and>
   type' (order 1 ''sale'' 10) = py_str ''sale'' \<and>
   product_id (order 1 ''sale'' 10) = product_id (order 1 ''purchase'' 10) \<and>
   quantity (order 1 ''sale'' 10) = quantity (order 1 ''purchase'' 10) \<and>
   purchase (order 1 ''purchase'' 10) 5000 5001 shop = (Inr restock_receipt, shop_restocked) \<and>
   purchase (order 1 ''sale'' 10) 6000 6001 shop_restocked = (Inr sale_receipt, shop_sold) \<and>
   (\<exists>product.
      query_product (product_id (order 1 ''purchase'' 10)) shop = Some product \<and>
      map_option stock (query_product (product_id (order 1 ''purchase'' 10)) shop_sold) =
        Some (stock product) \<and>
      length (transactions shop_sold) = length (transactions shop) + 2)"
proof -
  have a: "type' (order 1 ''purchase'' 10) = py_str ''purchase''"
    and b: "type' (order 1 ''sale'' 10) = py_str ''sale''"
    and c: "product_id (order 1 ''sale'' 10) = product_id (order 1 ''purchase'' 10)"
    and d: "quantity (order 1 ''sale'' 10) = quantity (order 1 ''purchase'' 10)"
    by (simp_all add: order_def)
  from purchase_sale_symmetry [OF a b c d restock_run sale_run] a b c d restock_run sale_run
  show ?thesis by blast
qed

subsection \<open>The order of the validations\<close>

text \<open>
  Claim C6. A call whose kind is neither purchase nor sale raises the invalid-kind error
  whether or not its product exists; a call with a valid kind and no product with the
  given key raises the product-not-found error; and the insufficient-stock error is
  raised only when the kind is valid (it is a sale) and the product was found.
\<close>

theorem validation_order:
  "(type' payload \<noteq> py_str ''purchase'' \<and> type' payload \<noteq> py_str ''sale'' \<longrightarrow>
      purchase payload now1 now2 db = (Inl InvalidKind, db)) \<and>
   ((type' payload = py_str ''purchase'' \<or> type' payload = py_str ''sale'') \<and>
    query_product (product_id payload) db = None \<longrightarrow>
      purchase payload now1 now2 db = (Inl ProductNotFound, db)) \<and>
   (fst (purchase payload now1 now2 db) = Inl InsufficientStock \<longrightarrow>
      type' payload = py_str ''sale'' \<and>
      (\<exists>product. query_product (product_id payload) db = Some product \<and>
                  stock product < quantity payload))"
  unfolding purchase_def error_defs
  by (auto simp: Let_def split: option.splits)

theorem validation_order_witness:
  "purchase (order 7 ''refund'' 10) 5000 5001 shop = (Inl InvalidKind, shop) \<and>
   purchase (order 1 ''refund'' 10) 5000 5001 shop = (Inl InvalidKind, shop) \<and>
   purchase (order 7 ''sale'' 10) 5000 5001 shop = (Inl ProductNotFound, shop) \<and>
   fst (purchase (order 1 ''sale'' 10) 5000 5001 shop) = Inl InsufficientStock \<and>
   type' (order 1 ''sale'' 10) = py_str ''sale'' \<and>
   (\<exists>product. query_product (product_id (order 1 ''sale'' 10)) shop = Some product \<and>
               stock product < quantity (order 1 ''sale'' 10))"
proof -
  have a: "type' (order 7 ''refund'' 10) \<noteq> py_str ''purchase'' \<and>
           type' (order 7 ''refund'' 10) \<noteq> py_str ''sale''"
    by (simp add: order_def py_str_def)
  have b: "type' (order 1 ''refund'' 10) \<noteq> py_str ''purchase'' \<and>
           type' (order 1 ''refund'' 10) \<noteq> py_str ''sale''"
    by (simp add: order_def py_str_def)
  have c: "(type' (order 7 ''sale'' 10) = py_str ''purchase'' \<or>
            type' (order 7 ''sale'' 10) = py_str ''sale'') \<and>
           query_product (product_id (order 7 ''sale'' 10)) shop = None"
    by (simp add: query_product_def example_defs)
  have d: "fst (purchase (order 1 ''sale'' 10) 5000 5001 shop) = Inl InsufficientStock"
    unfolding oversell_run by simp
  from validation_order [of "order 7 ''refund'' 10" 5000 5001 shop] a
  have 1: "purchase (order 7 ''refund'' 10) 5000 5001 shop = (Inl InvalidKind, shop)"
    by blast
  from validation_order [of "order 1 ''refund'' 10" 5000 5001 shop] b
  have 2: "purchase (order 1 ''refund'' 10) 5000 5001 shop = (Inl InvalidKind, shop)"
    by blast
  from validation_order [of "order 7 ''sale'' 10" 5000 5001 shop] c
  have 3: "purchase (order 7 ''sale'' 10) 5000 5001 shop = (Inl ProductNotFound, shop)"
    by blast
  from validation_order [of "order 1 ''sale'' 10" 5000 5001 shop] d
  have 4: "type' (order 1 ''sale'' 10) = py_str ''sale'' \<and>
   (\<exists>product. query_product (product_id (order 1 ''sale'' 10)) shop = Some product \<and>
               stock product < quantity (order 1 ''sale'' 10))"
    by blast
  from 1 2 3 4 d show ?thesis by blast
qed

subsection \<open>The two clock readings of a successful call\<close>

text \<open>
  Claim C8 as stated, with one timestamp for the whole call, does not hold of the code.
  The handler reads the clock once for the product's \<^verbatim>\<open>updated_at\<close> and once more
  for the transaction's \<^verbatim>\<open>created_at\<close>. With the readings 5000 and 5001 the product
  is stamped 5000 and the new ledger record 5001: the two stored instants differ.
\<close>

theorem purchase_single_timestamp_counterexample:
  "fst (purchase (order 1 ''purchase'' 10) 5000 5001 shop) = Inr restock_receipt \<and>
   map_option updated_at
     (query_product 1 (snd (purchase (order 1 ''purchase'' 10) 5000 5001 shop))) = Some 5000 \<and>
   tx_created_at (last (transactions (snd (purchase (order 1 ''purchase'' 10) 5000 5001 shop)))) =
     5001 \<and>
   map_option updated_at
     (query_product 1 (snd (purchase (order 1 ''purchase'' 10) 5000 5001 shop))) \<noteq>
   Some (tx_created_at
     (last (transactions (snd (purchase (order 1 ''purchase'' 10) 5000 5001 shop)))))"
  unfolding restock_run
  by (simp add: query_product_def shop_restocked_def milk_def)

text \<open>
  Claim C8, amended. In every successful call the product's \<^verbatim>\<open>updated_at\<close> is the
  first reading of the clock, and the \<^verbatim>\<open>created_at\<close> of the appended ledger
  record, which is also the one returned to the caller, is the second reading; the two
  stored instants are equal exactly when the two readings are.
\<close>

theorem purchase_timestamps:
  assumes "purchase payload now1 now2 db = (Inr out, db')"
  shows "map_option updated_at (query_product (product_id payload) db') = Some now1 \<and>
         tx_created_at (last (transactions db')) = now2 \<and>
         out_created_at out = now2 \<and>
         (map_option updated_at (query_product (product_id payload) db') =
            Some (tx_created_at (last (transactions db'))) \<longleftrightarrow> now1 = now2)"
proof -
  from purchase_success [OF assms] obtain product where
    q: "query_product (product_id payload) db = Some product" and
    d: "db' = commit_purchase
             (product\<lparr> stock := (if type' payload = py_str ''purchase''
                                  then stock product + quantity payload
                                  else stock product - quantity payload),
                       updated_at := now1 \<rparr>)
             \<lparr> tx_id = next_id (map tx_id (transactions db)),
               tx_product_id = id' product,
               tx_type = type' payload,
               tx_quantity = quantity payload,
               tx_unit_price = unit_price payload,
               tx_note = note' payload,
               tx_created_at = now2 \<rparr> db" and
    o: "out_created_at out = now2"
    by blast
  have i: "id' product = product_id payload"
    using q by (rule query_product_id)
  have u: "map_option updated_at (query_product (product_id payload) db') = Some now1"
    unfolding d by (simp add: query_product_commit i q)
  have c: "tx_created_at (last (transactions db')) = now2"
    unfolding d by (simp add: commit_purchase_def)
  from u c o show ?thesis by auto
qed

theorem purchase_timestamps_witness:
  "purchase (order 1 ''purchase'' 10) 5000 5001 shop = (Inr restock_receipt, shop_restocked) \<and>
   map_option updated_at (query_product (product_id (order 1 ''purchase'' 10)) shop_restocked) =
     Some 5000 \<and>
   tx_created_at (last (transactions shop_restocked)) = 5001 \<and>
   out_created_at restock_receipt = 5001"
  using purchase_timestamps [OF restock_run] restock_run by blast

subsection \<open>What a successful call leaves alone\<close>

text \<open>
  Claim C9. A successful call keeps the number and order of the product rows; in every
  row the key, name, category, price, description and creation time are as before, and a
  row of any other product is unchanged as a whole; the ledger records that existed before
  the call are unchanged.
\<close>

theorem purchase_frame:
  assumes "purchase payload now1 now2 db = (Inr out, db')"
  shows "length (products db') = length (products db) \<and>
         (\<forall>i < length (products db).
            id' (products db' ! i) = id' (products db ! i) \<and>
            name (products db' ! i) = name (products db ! i) \<and>
            category (products db' ! i) = category (products db ! i) \<and>
            price (products db' ! i) = price (products db ! i) \<and>
            description (products db' ! i) = description (products db ! i) \<and>
            created_at (products db' ! i) = created_at (products db ! i) \<and>
            (id' (products db ! i) \<noteq> product_id payload \<longrightarrow>
               products db' ! i = products db ! i)) \<and>
         take (length (transactions db)) (transactions db') = transactions db"
proof -
  from purchase_success [OF assms] obtain product where
    q: "query_product (product_id payload) db = Some product" and
    d: "db' = commit_purchase
             (product\<lparr> stock := (if type' payload = py_str ''purchase''
                                  then stock product + quantity payload
                                  else stock product - quantity payload),
                       updated_at := now1 \<rparr>)
             \<lparr> tx_id = next_id (map tx_id (transactions db)),
               tx_product_id = id' product,
               tx_type = type' payload,
               tx_quantity = quantity payload,
               tx_unit_price = unit_price payload,
               tx_note = note' payload,
               tx_created_at = now2 \<rparr> db"
    by blast
  have i: "id' product = product_id payload"
    using q by (rule query_product_id)
  show ?thesis
    unfolding d by (simp add: commit_purchase_def i)
qed

theorem purchase_frame_witness:
  "purchase (order 1 ''purchase'' 10) 5000 5001 shop = (Inr restock_receipt, shop_restocked) \<and>
   length (products shop_restocked) = length (products shop) \<and>
   id' (products shop_restocked ! 0) = id' (products shop ! 0) \<and>
   name (products shop_restocked ! 0) = name (products shop ! 0) \<and>
   category (products shop_restocked ! 0) = category (products shop ! 0) \<and>
   price (products shop_restocked ! 0) = price (products shop ! 0) \<and>
   description (products shop_restocked ! 0) = description (products shop ! 0) \<and>
   created_at (products shop_restocked ! 0) = created_at (products shop ! 0) \<and>
   products shop_restocked ! 1 = products shop ! 1 \<and>
   take (length (transactions shop)) (transactions shop_restocked) = transactions shop"
proof -
  have a: "0 < length (products shop)" and b: "1 < length (products shop)"
    and c: "id' (products shop ! 1) \<noteq> product_id (order 1 ''purchase'' 10)"
    by (simp_all add: example_defs)
  from purchase_frame [OF restock_run] a b c restock_run show ?thesis
    by blast
qed

section \<open>Properties of the catalog endpoints\<close>

subsection \<open>Auxiliary facts\<close>

lemma fold_max_ge: "(a::nat) \<le> fold max ks a"
proof (induction ks arbitrary: a)
  case Nil
  show ?case by simp
next
  case (Cons k ks)
  have "a \<le> max k a" by simp
  also have "\<dots> \<le> fold max ks (max k a)" by (rule Cons.IH)
  finally show ?case by simp
qed

lemma fold_max_mem: "k \<in> set ks \<Longrightarrow> (k::nat) \<le> fold max ks a"
proof (induction ks arbitrary: a)
  case Nil
  then show ?case by simp
next
  case (Cons x ks)
  show ?case
  proof (cases "k = x")
    case True
    have "k \<le> max x a" using True by simp
    also have "\<dots> \<le> fold max ks (max x a)" by (rule fold_max_ge)
    finally show ?thesis by simp
  next
    case False
    with Cons.prems have "k \<in> set ks" by simp
    then show ?thesis by (simp add: Cons.IH)
  qed
qed

lemma next_id_fresh: "k \<in> set ks \<Longrightarrow> k < next_id ks"
  unfolding next_id_def using fold_max_mem [of k ks 0] by simp

lemma find_append_None: "find P xs = None \<Longrightarrow> find P (xs @ ys) = find P ys"
  by (induction xs) (auto split: if_splits)

lemma create_product_cases:
  "create_product payload now1 now2 db =
     (if \<exists>p \<in> set (products db). name p = py_strip (pc_name payload)
      then (Inl DuplicateName, db)
      else (Inr \<lparr> id' = next_id (map id' (products db)),
                  name = py_strip (pc_name payload),
                  category = (case pc_category payload of
                                None \<Rightarrow> None
                              | Some c \<Rightarrow> if c = [] then None else Some c),
                  price = pc_price payload,
                  stock = pc_stock payload,
                  description = pc_description payload,
                  created_at = now1,
                  updated_at = now2 \<rparr>,
            db\<lparr> products := products db @
                   [\<lparr> id' = next_id (map id' (products db)),
                      name = py_strip (pc_name payload),
                      category = (case pc_category payload of
                                    None \<Rightarrow> None
                                  | Some c \<Rightarrow> if c = [] then None else Some c),
                      price = pc_price payload,
                      stock = pc_stock payload,
                      description = pc_description payload,
                      created_at = now1,
                      updated_at = now2 \<rparr>] \<rparr>))"
  unfolding create_product_def DuplicateName_def by (simp add: Let_def)

lemma create_product_success:
  assumes "create_product payload now1 now2 db = (Inr product, db')"
  shows "name product = py_strip (pc_name payload)"
    and "id' product = next_id (map id' (products db))"
    and "db' = db\<lparr> products := products db @ [product] \<rparr>"
    and "\<forall>p \<in> set (products db). name p \<noteq> py_strip (pc_name payload)"
  using assms unfolding create_product_cases
  by (auto split: if_splits)

lemma create_product_failure:
  assumes "create_product payload now1 now2 db = (Inl e, db')"
  shows "e = DuplicateName" and "db' = db"
    and "\<exists>p \<in> set (products db). name p = py_strip (pc_name payload)"
  using assms unfolding create_product_cases
  by (auto split: if_splits)

lemma create_product_name_taken:
  assumes "create_product payload now1 now2 db = (r, db')"
  shows "\<exists>p \<in> set (products db'). name p = py_strip (pc_name payload)"
proof (cases r)
  case (Inl e)
  with assms create_product_failure [of payload now1 now2 db e db'] show ?thesis by simp
next
  case (Inr product)
  with assms create_product_success [of payload now1 now2 db product db'] show ?thesis by simp
qed

lemma query_product_created:
  assumes "create_product payload now1 now2 db = (Inr product, db')"
  shows "query_product (id' product) db' = Some product"
proof -
  note s = create_product_success [OF assms]
  have "\<forall>p \<in> set (products db). id' p \<noteq> id' product"
    using next_id_fresh [of _ "map id' (products db)"] s(2) by fastforce
  then have "find (\<lambda>p. id' p = id' product) (products db) = None"
    by (simp add: find_None_iff)
  then show ?thesis
    unfolding s(3) query_product_def by (simp add: find_append_None)
qed

lemma py_strip_left:
  assumes "\<forall>c \<in> set l. py_isspace c"
  shows "py_strip (l @ s) = py_strip s"
proof -
  have "dropWhile py_isspace (l @ s) = dropWhile py_isspace s"
    by (rule dropWhile_append2) (use assms in simp)
  then show ?thesis by (simp only: py_strip_def)
qed

lemma py_strip_right:
  assumes "\<forall>c \<in> set r. py_isspace c"
  shows "py_strip (s @ r) = py_strip s"
proof (cases "\<forall>c \<in> set s. py_isspace c")
  case True
  with assms have a: "dropWhile py_isspace (s @ r) = []" and b: "dropWhile py_isspace s = []"
    unfolding dropWhile_eq_Nil_conv by auto
  show ?thesis unfolding py_strip_def a b by (rule refl)
next
  case False
  then have "dropWhile py_isspace (s @ r) = dropWhile py_isspace s @ r"
    by (auto simp: dropWhile_append1)
  moreover have "dropWhile py_isspace (rev r @ xs) = dropWhile py_isspace xs" for xs
    by (rule dropWhile_append2) (use assms in simp)
  ultimately show ?thesis by (simp add: py_strip_def)
qed

lemma py_strip_surrounding:
  assumes "\<forall>c \<in> set l. py_isspace c" and "\<forall>c \<in> set r. py_isspace c"
  shows "py_strip (l @ s @ r) = py_strip s"
  using assms by (simp add: py_strip_left py_strip_right)

lemma find_replace_rows:
  "find (\<lambda>p. id' p = k) rows = Some row \<Longrightarrow> id' row' = k \<Longrightarrow>
   find (\<lambda>p. id' p = k) (map (\<lambda>p. if id' p = k then row' else p) rows) = Some row'"
  by (induction rows) (auto split: if_splits)

lemma update_product_success:
  assumes "update_product pid payload now db = (Inr product', db')"
    and "pu_name payload = Some n"
  shows "name product' = py_strip n" and "query_product pid db' = Some product'"
proof -
  from assms(1) obtain product where q: "query_product pid db = Some product"
    unfolding update_product_def by (auto split: option.splits)
  have i: "id' product = pid"
    using q by (rule query_product_id)
  from assms q have k: "id' product' = pid \<and> name product' = py_strip n \<and>
      db' = db\<lparr> products := map (\<lambda>p. if id' p = pid then product' else p) (products db) \<rparr>"
    unfolding update_product_def
    by (auto simp: Let_def i split: if_splits option.splits)
  then show "name product' = py_strip n" by simp
  from k q show "query_product pid db' = Some product'"
    by (simp add: query_product_def find_replace_rows)
qed

lemma py_strip_decompose:
  "\<exists>l r. s = l @ py_strip s @ r \<and> (\<forall>c \<in> set l. py_isspace c) \<and> (\<forall>c \<in> set r. py_isspace c)"
proof -
  define t where "t = dropWhile py_isspace s"
  have "py_strip s @ rev (takeWhile py_isspace (rev t)) =
          rev (takeWhile py_isspace (rev t) @ dropWhile py_isspace (rev t))"
    by (simp only: py_strip_def t_def rev_append)
  also have "\<dots> = rev (rev t)"
    by (simp only: takeWhile_dropWhile_id)
  also have "\<dots> = t"
    by (simp only: rev_rev_ident)
  finally have "t = py_strip s @ rev (takeWhile py_isspace (rev t))"
    by (rule sym)
  moreover have "s = takeWhile py_isspace s @ t"
    by (simp add: t_def)
  ultimately have "s = takeWhile py_isspace s @ py_strip s @ rev (takeWhile py_isspace (rev t))"
    by simp
  moreover have "\<forall>c \<in> set (takeWhile py_isspace s). py_isspace c"
    by (auto dest: set_takeWhileD)
  moreover have "\<forall>c \<in> set (rev (takeWhile py_isspace (rev t))). py_isspace c"
    by (auto dest: set_takeWhileD)
  ultimately show ?thesis by blast
qed

text \<open>The example calls, evaluated.\<close>

lemma eggs_run:
  "create_product (new_product '' Eggs '') 7000 7001 shop = (Inr eggs, shop_with_eggs)"
  by (simp add: create_product_def next_id_def py_strip_def py_isspace_def Let_def
        numeral_3_eq_3 example_defs)

lemma rename_run:
  "update_product 2 (rename ''  Rye '') 8000 shop = (Inr rye, shop_renamed)"
  by (simp add: update_product_def query_product_def py_strip_def py_isspace_def Let_def
        example_defs)

subsection \<open>Names are unique, compared exactly\<close>

text \<open>
  Claim C7. Of two consecutive calls of catalog create with the same name, the second
  raises the duplicate-name error and leaves the database, with the record the first call
  created, as it was. Names are compared code point by code point: a second call whose
  name is a different sequence, for instance one differing in letter case, and which no
  earlier product has, succeeds.
\<close>

theorem create_duplicate_name:
  assumes "create_product payload1 a1 a2 db = (r1, db1)"
  shows "(pc_name payload2 = pc_name payload1 \<longrightarrow>
            create_product payload2 b1 b2 db1 = (Inl DuplicateName, db1) \<and>
            (\<forall>product. r1 = Inr product \<longrightarrow> query_product (id' product) db1 = Some product)) \<and>
         (py_strip (pc_name payload2) \<noteq> py_strip (pc_name payload1) \<and>
          (\<forall>p \<in> set (products db). name p \<noteq> py_strip (pc_name payload2)) \<longrightarrow>
            (\<exists>product2. create_product payload2 b1 b2 db1 =
                           (Inr product2, db1\<lparr> products := products db1 @ [product2] \<rparr>)))"
proof (intro conjI impI allI)
  assume "pc_name payload2 = pc_name payload1"
  with create_product_name_taken [OF assms]
  show "create_product payload2 b1 b2 db1 = (Inl DuplicateName, db1)"
    unfolding create_product_cases by simp
next
  fix product assume "r1 = Inr product"
  with assms show "query_product (id' product) db1 = Some product"
    by (simp add: query_product_created)
next
  assume h: "py_strip (pc_name payload2) \<noteq> py_strip (pc_name payload1) \<and>
          (\<forall>p \<in> set (products db). name p \<noteq> py_strip (pc_name payload2))"
  have "\<forall>p \<in> set (products db1). name p \<noteq> py_strip (pc_name payload2)"
  proof (cases r1)
    case (Inl e)
    with assms create_product_failure [of payload1 a1 a2 db e db1] h show ?thesis by simp
  next
    case (Inr product)
    with assms create_product_success [of payload1 a1 a2 db product db1] h show ?thesis
      by auto
  qed
  then show "\<exists>product2. create_product payload2 b1 b2 db1 =
                           (Inr product2, db1\<lparr> products := products db1 @ [product2] \<rparr>)"
    unfolding create_product_cases by simp
qed

theorem create_duplicate_name_witness:
  "create_product (new_product '' Eggs '') 7000 7001 shop = (Inr eggs, shop_with_eggs) \<and>
   create_product (new_product '' Eggs '') 9000 9001 shop_with_eggs =
     (Inl DuplicateName, shop_with_eggs) \<and>
   query_product (id' eggs) shop_with_eggs = Some eggs \<and>
   (\<exists>product2. create_product (new_product ''eggs'') 9000 9001 shop_with_eggs =
                  (Inr product2,
                   shop_with_eggs\<lparr> products := products shop_with_eggs @ [product2] \<rparr>))"
proof -
  have a: "py_strip (pc_name (new_product ''eggs'')) \<noteq> py_strip (pc_name (new_product '' Eggs '')) \<and>
           (\<forall>p \<in> set (products shop). name p \<noteq> py_strip (pc_name (new_product ''eggs'')))"
    by (simp add: py_strip_def py_isspace_def example_defs)
  from create_duplicate_name [OF eggs_run, of "new_product '' Eggs ''" 9000 9001]
  have 1: "create_product (new_product '' Eggs '') 9000 9001 shop_with_eggs =
             (Inl DuplicateName, shop_with_eggs) \<and>
           query_product (id' eggs) shop_with_eggs = Some eggs"
    by blast
  from create_duplicate_name [OF eggs_run, of "new_product ''eggs''" 9000 9001] a
  have 2: "\<exists>product2. create_product (new_product ''eggs'') 9000 9001 shop_with_eggs =
                  (Inr product2,
                   shop_with_eggs\<lparr> products := products shop_with_eggs @ [product2] \<rparr>)"
    by blast
  from 1 2 eggs_run show ?thesis by blast
qed

subsection \<open>Names are stored stripped\<close>

text \<open>
  Claim C10. Catalog create stores and returns the input name with its surrounding
  whitespace removed, and catalog update stores a new name the same way; the stripped name
  is the input without a whitespace prefix and a whitespace suffix, so names that differ
  only by surrounding whitespace are stripped to the same name and the second of two such
  create calls raises the duplicate-name error; and the stored name can differ from the
  name the caller sent.
\<close>

theorem name_is_stripped:
  "(create_product payload a1 a2 db = (Inr product, db1) \<longrightarrow>
      name product = py_strip (pc_name payload) \<and>
      map_option name (query_product (id' product) db1) = Some (py_strip (pc_name payload)) \<and>
      (py_strip (pc_name payload2) = py_strip (pc_name payload) \<longrightarrow>
         create_product payload2 b1 b2 db1 = (Inl DuplicateName, db1))) \<and>
   (update_product pid upd now db = (Inr product', db2) \<and> pu_name upd = Some n \<longrightarrow>
      name product' = py_strip n \<and>
      map_option name (query_product pid db2) = Some (py_strip n)) \<and>
   (\<exists>l r. s = l @ py_strip s @ r \<and>
      (\<forall>c \<in> set l. py_isspace c) \<and> (\<forall>c \<in> set r. py_isspace c)) \<and>
   ((\<forall>c \<in> set l. py_isspace c) \<and> (\<forall>c \<in> set r. py_isspace c) \<longrightarrow>
      py_strip (l @ s @ r) = py_strip s) \<and>
   (\<exists>payload0 t1 t2 db0 product0 db0'.
      create_product payload0 t1 t2 db0 = (Inr product0, db0') \<and>
      name product0 \<noteq> pc_name payload0)"
proof (intro conjI impI)
  assume c: "create_product payload a1 a2 db = (Inr product, db1)"
  show n: "name product = py_strip (pc_name payload)"
    using c by (rule create_product_success)
  show "map_option name (query_product (id' product) db1) = Some (py_strip (pc_name payload))"
    using query_product_created [OF c] n by simp
  assume "py_strip (pc_name payload2) = py_strip (pc_name payload)"
  with create_product_name_taken [OF c]
  show "create_product payload2 b1 b2 db1 = (Inl DuplicateName, db1)"
    unfolding create_product_cases by simp
next
  assume u: "update_product pid upd now db = (Inr product', db2) \<and> pu_name upd = Some n"
  then show "name product' = py_strip n"
    using update_product_success(1) by blast
  from u show "map_option name (query_product pid db2) = Some (py_strip n)"
    using update_product_success [of pid upd now db product' db2 n] by simp
next
  show "\<exists>l r. s = l @ py_strip s @ r \<and>
      (\<forall>c \<in> set l. py_isspace c) \<and> (\<forall>c \<in> set r. py_isspace c)"
    by (rule py_strip_decompose)
next
  assume "(\<forall>c \<in> set l. py_isspace c) \<and> (\<forall>c \<in> set r. py_isspace c)"
  then show "py_strip (l @ s @ r) = py_strip s"
    by (simp add: py_strip_surrounding)
next
  have "name eggs \<noteq> pc_name (new_product '' Eggs '')"
    by (simp add: example_defs)
  with eggs_run show "\<exists>payload0 t1 t2 db0 product0 db0'.
      create_product payload0 t1 t2 db0 = (Inr product0, db0') \<and>
      name product0 \<noteq> pc_name payload0"
    by blast
qed

theorem name_is_stripped_witness:
  "create_product (new_product '' Eggs '') 7000 7001 shop = (Inr eggs, shop_with_eggs) \<and>
   name eggs = py_strip (pc_name (new_product '' Eggs '')) \<and>
   name eggs = py_str ''Eggs'' \<and>
   pc_name (new_product '' Eggs '') = py_str '' Eggs '' \<and>
   map_option name (query_product (id' eggs) shop_with_eggs) = Some (py_str ''Eggs'') \<and>
   py_strip (pc_name (new_product ''Eggs'')) = py_strip (pc_name (new_product '' Eggs '')) \<and>
   create_product (new_product ''Eggs'') 9000 9001 shop_with_eggs =
     (Inl DuplicateName, shop_with_eggs) \<and>
   update_product 2 (rename ''  Rye '') 8000 shop = (Inr rye, shop_renamed) \<and>
   pu_name (rename ''  Rye '') = Some (py_str ''  Rye '') \<and>
   name rye = py_str ''Rye'' \<and>
   map_option name (query_product 2 shop_renamed) = Some (py_str ''Rye'')"
proof -
  have e: "py_strip (pc_name (new_product ''Eggs'')) = py_strip (pc_name (new_product '' Eggs ''))"
    and s1: "py_strip (pc_name (new_product '' Eggs '')) = py_str ''Eggs''"
    and s2: "py_strip (py_str ''  Rye '') = py_str ''Rye''"
    and p: "pc_name (new_product '' Eggs '') = py_str '' Eggs ''"
    and u: "pu_name (rename ''  Rye '') = Some (py_str ''  Rye '')"
    by (simp_all add: py_strip_def py_isspace_def example_defs)
  note t = name_is_stripped [of "new_product '' Eggs ''" 7000 7001 shop eggs shop_with_eggs
      "new_product ''Eggs''" 9000 9001 2 "rename ''  Rye ''" 8000 rye shop_renamed
      "py_str ''  Rye ''"]
  from t eggs_run e have
    1: "name eggs = py_strip (pc_name (new_product '' Eggs '')) \<and>
        map_option name (query_product (id' eggs) shop_with_eggs) =
          Some (py_strip (pc_name (new_product '' Eggs ''))) \<and>
        create_product (new_product ''Eggs'') 9000 9001 shop_with_eggs =
          (Inl DuplicateName, shop_with_eggs)"
    by blast
  from t rename_run u have
    2: "name rye = py_strip (py_str ''  Rye '') \<and>
        map_option name (query_product 2 shop_renamed) = Some (py_strip (py_str ''  Rye ''))"
    by blast
  from 1 2 eggs_run rename_run e p u show ?thesis
    unfolding s1 s2 by blast
qed

end
